theory Spec2Isabelle
  imports Main
begin

section \<open>Stripe failed payments monitor: a model of \<open>src/index.js\<close>\<close>

text \<open>
  The program is one Express application. Its handlers run sequentially (every external
  call is awaited before the next statement), so a handler is modelled as a function from
  the state before the request to a response and the state after it.

  \<^item> The module-level variable \<open>logs\<close>, the lines written by \<open>console.log\<close>, the number
    of times the clock has been read and the sequence of requests made to the external
    services form the record \<open>state\<close>.
  \<^item> The external collaborators (Stripe SDK, mail transport, Airtable SDK, the clock and
    \<open>process.env\<close>) are the fields of the record \<open>env\<close>; a call that can reject returns
    \<open>js_error + 'a\<close>, with \<open>Inl\<close> for the rejection.
  \<^item> A function of the source that can throw returns \<open>(js_error + 'a) \<times> state\<close>; a
    \<open>try \<dots> catch\<close> is a case distinction on that result.
  \<^item> \<open>null\<close> and \<open>undefined\<close> are both \<open>None\<close>: the source only tests them for truthiness.
  \<^item> A collaborator is a function of its arguments; a handler calls each of them at most
    once, so one run of a handler sees nothing more of it.

  Module initialisation and the Express middleware (lines 1 to 25 of the source) are not
  modelled: a handler is entered with the request as Express delivers it. The routes
  \<open>GET /\<close> and \<open>GET /webhook/info\<close> return constants and are left out.
\<close>

subsection \<open>JavaScript values and built-ins\<close>

text \<open>
  A value thrown by a collaborator is an object. Its \<open>message\<close> property is a string, as in
  the errors of the Stripe, nodemailer and Airtable SDKs, or is absent, as in a rejection
  with a plain object such as \<open>{error: 'NOT_FOUND', statusCode: 404}\<close>: JavaScript lets a
  promise reject with any value.
\<close>

datatype js_error = Error (err_message: "string option")

text \<open>\<open>${error.message}\<close> in a template literal: an absent property prints as \<open>undefined\<close>.\<close>

definition interpolate :: "string option \<Rightarrow> string" where
  "interpolate v = (case v of None \<Rightarrow> ''undefined'' | Some s \<Rightarrow> s)"

text \<open>
  The \<open>TypeError\<close> raised by \<open>error.message.includes(\<dots>)\<close> when \<open>error.message\<close> is
  \<open>undefined\<close>, with the message Node gives it.
\<close>

definition TypeError_includes :: js_error where
  "TypeError_includes =
     Error (Some (''Cannot read properties of undefined (reading '' @ [CHR 0x27] @
                  ''includes'' @ [CHR 0x27] @ '')''))"

text \<open>Truthiness of a string-or-absent value: \<open>undefined\<close>, \<open>null\<close> and \<open>''\<close> are falsy.\<close>

definition truthy :: "string option \<Rightarrow> bool" where
  "truthy v = (case v of None \<Rightarrow> False | Some s \<Rightarrow> s \<noteq> [])"

text \<open>\<open>a || b\<close> where \<open>b\<close> may itself be absent.\<close>

definition js_or :: "string option \<Rightarrow> string option \<Rightarrow> string option" where
  "js_or a b = (if truthy a then a else b)"

text \<open>\<open>a || 'literal'\<close>.\<close>

definition js_or_str :: "string option \<Rightarrow> string \<Rightarrow> string" where
  "js_or_str a d = (case a of None \<Rightarrow> d | Some s \<Rightarrow> if s = [] then d else s)"

text \<open>\<open>String.prototype.toUpperCase\<close>, on ASCII text (characters are bytes here).\<close>

definition upper_char :: "char \<Rightarrow> char" where
  "upper_char c =
     (case map_of (zip ''abcdefghijklmnopqrstuvwxyz'' ''ABCDEFGHIJKLMNOPQRSTUVWXYZ'') c of
        None \<Rightarrow> c
      | Some u \<Rightarrow> u)"

definition toUpperCase :: "string \<Rightarrow> string" where
  "toUpperCase s = map upper_char s"

text \<open>\<open>String.prototype.includes\<close>.\<close>

definition startsWith :: "string \<Rightarrow> string \<Rightarrow> bool" where
  "startsWith s t = (take (length t) s = t)"

fun includes_str :: "string \<Rightarrow> string \<Rightarrow> bool" where
  "includes_str [] t = (t = [])"
| "includes_str (c # cs) t = (startsWith (c # cs) t \<or> includes_str cs t)"

text \<open>\<open>Array.prototype.slice(-n)\<close>: the last \<open>n\<close> elements, all of them when there are fewer.\<close>

definition slice_last :: "nat \<Rightarrow> 'a list \<Rightarrow> 'a list" where
  "slice_last n xs = drop (length xs - n) xs"

text \<open>Decimal rendering of a natural number, as string concatenation with a number does.\<close>

definition digit_char :: "nat \<Rightarrow> char" where
  "digit_char d = ''0123456789'' ! (d mod 10)"

fun show_nat :: "nat \<Rightarrow> string" where
  "show_nat n = (if n < 10 then [digit_char n] else show_nat (n div 10) @ [digit_char (n mod 10)])"

declare show_nat.simps [simp del]

text \<open>
  \<open>(a / 100).toFixed(2)\<close> for an integer \<open>a\<close> of minor units. \<open>toFixed(2)\<close> prints the
  integer \<open>n\<close> for which \<open>n / 100\<close> is nearest to its argument, with a point before the
  last two digits and the sign in front; for an integer \<open>a\<close> below \<open>2^52\<close> in magnitude the
  nearest integer to \<open>100 * (a / 100)\<close> is \<open>a\<close> itself, so the digits are those of \<open>a\<close>.
\<close>

definition toFixed2 :: "int \<Rightarrow> string" where
  "toFixed2 a =
     (let m = nat \<bar>a\<bar> in
      (if a < 0 then ''-'' else '''') @ show_nat (m div 100) @ ''.'' @
      [digit_char (m div 10 mod 10), digit_char (m mod 10)])"

definition nl :: string where
  "nl = [CHR 0x0A]"

subsection \<open>Data model\<close>

record log_entry =
  timestamp :: string
  level :: string
  message :: string

text \<open>The object literal \<open>paymentData\<close> built by \<open>processFailedPayment\<close>, the webhook and \<open>/test\<close>.\<close>

record payment_data =
  paymentId :: string
  customerId :: "string option"
  customerEmail :: "string option"
  amount :: int
  currency :: string
  failureReason :: string
  pd_timestamp :: string

text \<open>
  The fields the source reads from \<open>event.data.object\<close> (a payment intent, an invoice or a
  charge). \<open>last_payment_error\<close> and \<open>billing_details\<close> are nested objects read with \<open>?.\<close>:
  \<open>None\<close> when the object is absent, \<open>Some m\<close> when it is there with \<open>message\<close>/\<open>email\<close>
  equal to \<open>m\<close>.
\<close>

record stripe_object =
  obj_id :: string
  obj_customer :: "string option"
  obj_amount :: int
  obj_currency :: string
  last_payment_error :: "string option option"
  payment_intent :: "string option"
  billing_details :: "string option option"
  failure_message :: "string option"

record event =
  event_type :: string
  data_object :: stripe_object

record mail_options =
  mail_from :: "string option"
  mail_to :: "string option"
  subject :: string
  html :: string

record airtable_record =
  Payment_ID :: string
  Customer_Email :: string
  Customer_ID :: string
  Amount :: string
  Currency :: string
  Failure_Reason :: string
  Timestamp :: string
  Status :: string
  Alert_Sent :: string

record request =
  req_body :: string
  stripe_signature :: "string option"

text \<open>Requests made to the external services, in the order they are made.\<close>

datatype call =
    SendMail mail_options
  | AirtableCreate airtable_record
  | CustomersRetrieve string
  | PaymentIntentsRetrieve string
  | BalanceRetrieve
  | GmailVerify
  | AirtableSelect

record env =
  constructEvent :: "string \<Rightarrow> string option \<Rightarrow> string option \<Rightarrow> js_error + event"
  customers_retrieve :: "string \<Rightarrow> js_error + string option"
  paymentIntents_retrieve :: "string \<Rightarrow> js_error + stripe_object"
  balance_retrieve :: "js_error + unit"
  sendMail :: "mail_options \<Rightarrow> js_error + unit"
  gmail_verify :: "js_error + unit"
  airtable_create :: "airtable_record \<Rightarrow> js_error + unit"
  airtable_firstPage :: "js_error + unit"
  Date_now :: "nat \<Rightarrow> nat"
  toISOString :: "nat \<Rightarrow> string"
  GMAIL_USER :: "string option"
  ALERT_EMAIL :: "string option"
  STRIPE_WEBHOOK_SECRET :: "string option"

text \<open>
  \<open>Date_now env k\<close> is what the clock shows the \<open>k\<close>-th time it is read, in milliseconds;
  \<open>customers_retrieve\<close> returns the \<open>email\<close> field of the customer it fetched.
\<close>

record state =
  logs :: "log_entry list"
  console :: "string list"
  clock :: nat
  calls :: "call list"

definition initial_state :: state where
  "initial_state = \<lparr>logs = [], console = [], clock = 0, calls = []\<rparr>"

subsection \<open>The log buffer\<close>

text \<open>\<open>new Date().toISOString()\<close>: the reading and the state with the clock advanced.\<close>

definition new_Date_toISOString :: "env \<Rightarrow> state \<Rightarrow> string \<times> state" where
  "new_Date_toISOString env st =
     (toISOString env (Date_now env (clock st)), st\<lparr>clock := Suc (clock st)\<rparr>)"

definition addLog :: "env \<Rightarrow> string \<Rightarrow> string \<Rightarrow> state \<Rightarrow> state" where
  "addLog env msg lvl st =
     (let (ts, st1) = new_Date_toISOString env st;
          logEntry = \<lparr>timestamp = ts, level = lvl, message = msg\<rparr>;
          pushed = logs st1 @ [logEntry];
          st2 = st1\<lparr>console := console st1 @ [''['' @ toUpperCase lvl @ ''] '' @ msg]\<rparr>
      in st2\<lparr>logs := (if length pushed > 100 then slice_last 100 pushed else pushed)\<rparr>)"

subsection \<open>Responses\<close>

text \<open>The body of the \<open>GET /logs\<close> response: \<open>{logs: logs.slice(-50), total: logs.length}\<close>.\<close>

record logs_response =
  resp_logs :: "log_entry list"
  total :: nat

text \<open>The object \<open>health\<close> of \<open>GET /health\<close>; \<open>checks\<close> starts as \<open>{}\<close> and gains a key per check.\<close>

record health =
  health_status :: string
  health_timestamp :: string
  checks :: "string \<rightharpoonup> string"

datatype body =
    Text string
  | Json_received bool
  | Json_logs logs_response
  | Json_test_ok bool string payment_data
  | Json_test_error bool "string option"
  | Json_health health

record response =
  status :: nat
  body :: body

subsection \<open>\<open>GET /logs\<close>\<close>

definition logs_body :: "state \<Rightarrow> logs_response" where
  "logs_body st = \<lparr>resp_logs = slice_last 50 (logs st), total = length (logs st)\<rparr>"

definition get_logs :: "state \<Rightarrow> response" where
  "get_logs st = \<lparr>status = 200, body = Json_logs (logs_body st)\<rparr>"

text \<open>
  A run of \<open>addLog\<close> calls, one per \<open>(message, level)\<close> pair, and the entries such a run
  creates when it starts with the clock at \<open>k\<close>.
\<close>

fun addLogs :: "env \<Rightarrow> (string \<times> string) list \<Rightarrow> state \<Rightarrow> state" where
  "addLogs env [] st = st"
| "addLogs env ((msg, lvl) # rest) st = addLogs env rest (addLog env msg lvl st)"

fun entries_from :: "env \<Rightarrow> nat \<Rightarrow> (string \<times> string) list \<Rightarrow> log_entry list" where
  "entries_from env k [] = []"
| "entries_from env k ((msg, lvl) # rest) =
     \<lparr>timestamp = toISOString env (Date_now env k), level = lvl, message = msg\<rparr>
       # entries_from env (Suc k) rest"

subsection \<open>The Notifier: \<open>sendEmailAlert\<close>\<close>

definition mail_html :: "payment_data \<Rightarrow> string" where
  "mail_html paymentData =
     nl @ ''        <h2>Payment Failure Alert</h2>'' @ nl @
     ''        <p><strong>Customer:</strong> '' @
        js_or_str (customerEmail paymentData) ''Unknown'' @ ''</p>'' @ nl @
     ''        <p><strong>Amount:</strong> $'' @ toFixed2 (amount paymentData) @ '' '' @
        toUpperCase (currency paymentData) @ ''</p>'' @ nl @
     ''        <p><strong>Failure Reason:</strong> '' @ failureReason paymentData @ ''</p>'' @ nl @
     ''        <p><strong>Payment ID:</strong> '' @ paymentId paymentData @ ''</p>'' @ nl @
     ''        <p><strong>Time:</strong> '' @ pd_timestamp paymentData @ ''</p>'' @ nl @
     ''        <p><strong>Customer ID:</strong> '' @
        js_or_str (customerId paymentData) ''N/A'' @ ''</p>'' @ nl @
     ''        '' @ nl @
     ''        <hr>'' @ nl @
     ''        <p>This alert was generated automatically by your Stripe Failed Payments Monitor.</p>''
       @ nl @
     ''      ''"

text \<open>The subject starts with the four UTF-8 bytes of U+1F6A8.\<close>

definition mailOptions :: "env \<Rightarrow> payment_data \<Rightarrow> mail_options" where
  "mailOptions env paymentData =
     \<lparr>mail_from = GMAIL_USER env,
      mail_to = js_or (ALERT_EMAIL env) (GMAIL_USER env),
      subject = [CHR 0xF0, CHR 0x9F, CHR 0x9A, CHR 0xA8] @ '' Stripe Payment Failed Alert'',
      html = mail_html paymentData\<rparr>"

text \<open>The \<open>try\<close> block of \<open>sendEmailAlert\<close>, then the function with its \<open>catch\<close>.\<close>

definition sendEmailAlert_try :: "env \<Rightarrow> payment_data \<Rightarrow> state \<Rightarrow> (js_error + unit) \<times> state" where
  "sendEmailAlert_try env paymentData st =
     (let opts = mailOptions env paymentData;
          st1 = st\<lparr>calls := calls st @ [SendMail opts]\<rparr>
      in case sendMail env opts of
           Inl e \<Rightarrow> (Inl e, st1)
         | Inr u \<Rightarrow>
             (Inr (), addLog env (''Email alert sent successfully for payment '' @
                                    paymentId paymentData) ''info'' st1))"

definition sendEmailAlert :: "env \<Rightarrow> payment_data \<Rightarrow> state \<Rightarrow> (js_error + unit) \<times> state" where
  "sendEmailAlert env paymentData st =
     (case sendEmailAlert_try env paymentData st of
        (Inr u, st1) \<Rightarrow> (Inr (), st1)
      | (Inl error, st1) \<Rightarrow>
          (Inr (), addLog env (''Failed to send email alert: '' @ interpolate (err_message error)) ''error'' st1))"

subsection \<open>The Record Logger: \<open>logToAirtable\<close>\<close>

definition airtable_fields :: "payment_data \<Rightarrow> airtable_record" where
  "airtable_fields paymentData =
     \<lparr>Payment_ID = paymentId paymentData,
      Customer_Email = js_or_str (customerEmail paymentData) ''Unknown'',
      Customer_ID = js_or_str (customerId paymentData) ''N/A'',
      Amount = toFixed2 (amount paymentData),
      Currency = toUpperCase (currency paymentData),
      Failure_Reason = failureReason paymentData,
      Timestamp = pd_timestamp paymentData,
      Status = ''Failed'',
      Alert_Sent = ''Yes''\<rparr>"

text \<open>The ten \<open>warn\<close> lines written when the error message contains \<open>NOT_FOUND\<close>.\<close>

definition table_guidance :: "(string \<times> string) list" where
  "table_guidance =
     [(''Please create a '' @ [CHR 0x22] @ ''Failed Payments'' @ [CHR 0x22] @
         '' table in your Growth AI Airtable base with the following fields:'', ''warn''),
      (''- Payment ID (Single line text)'', ''warn''),
      (''- Customer Email (Email)'', ''warn''),
      (''- Customer ID (Single line text)'', ''warn''),
      (''- Amount (Number)'', ''warn''),
      (''- Currency (Single line text)'', ''warn''),
      (''- Failure Reason (Long text)'', ''warn''),
      (''- Timestamp (Date)'', ''warn''),
      (''- Status (Single select: Failed)'', ''warn''),
      (''- Alert Sent (Single select: Yes, No)'', ''warn'')]"

definition logToAirtable_try :: "env \<Rightarrow> payment_data \<Rightarrow> state \<Rightarrow> (js_error + unit) \<times> state" where
  "logToAirtable_try env paymentData st =
     (let record = airtable_fields paymentData;
          st1 = st\<lparr>calls := calls st @ [AirtableCreate record]\<rparr>
      in case airtable_create env record of
           Inl e \<Rightarrow> (Inl e, st1)
         | Inr u \<Rightarrow>
             (Inr (), addLog env (''Payment failure logged to Airtable: '' @
                                    paymentId paymentData) ''info'' st1))"

text \<open>
  In the \<open>catch\<close> block, \<open>error.message.includes('NOT_FOUND')\<close> is evaluated after the
  \<open>error\<close> entry is written; it throws when the error has no \<open>message\<close>, and that
  exception leaves \<open>logToAirtable\<close>.
\<close>

definition logToAirtable :: "env \<Rightarrow> payment_data \<Rightarrow> state \<Rightarrow> (js_error + unit) \<times> state" where
  "logToAirtable env paymentData st =
     (case logToAirtable_try env paymentData st of
        (Inr u, st1) \<Rightarrow> (Inr (), st1)
      | (Inl error, st1) \<Rightarrow>
          (let st2 = addLog env (''Failed to log to Airtable: '' @ interpolate (err_message error))
                       ''error'' st1
           in case err_message error of
                None \<Rightarrow> (Inl TypeError_includes, st2)
              | Some m \<Rightarrow>
                  (Inr (), if includes_str m ''NOT_FOUND''
                           then addLogs env table_guidance st2 else st2)))"

subsection \<open>The Payment Enricher: \<open>processFailedPayment\<close>\<close>

text \<open>\<open>paymentIntent.last_payment_error?.message\<close> and \<open>charge.billing_details?.email\<close>.\<close>

definition optional_chain :: "string option option \<Rightarrow> string option" where
  "optional_chain obj = (case obj of None \<Rightarrow> None | Some field \<Rightarrow> field)"

text \<open>
  The customer lookup, made only when \<open>paymentIntent.customer\<close> is truthy: the record with
  the e-mail filled in, or the record unchanged and a \<open>warn\<close> entry when the lookup throws.
\<close>

definition lookup_customer_email ::
  "env \<Rightarrow> stripe_object \<Rightarrow> payment_data \<Rightarrow> state \<Rightarrow> payment_data \<times> state" where
  "lookup_customer_email env paymentIntent paymentData st =
     (case obj_customer paymentIntent of
        None \<Rightarrow> (paymentData, st)
      | Some c \<Rightarrow>
          if c = [] then (paymentData, st)
          else
            (let st1 = st\<lparr>calls := calls st @ [CustomersRetrieve c]\<rparr>
             in case customers_retrieve env c of
                  Inr email \<Rightarrow> (paymentData\<lparr>customerEmail := email\<rparr>, st1)
                | Inl error \<Rightarrow>
                    (paymentData,
                     addLog env (''Could not retrieve customer email: '' @ interpolate (err_message error))
                       ''warn'' st1)))"

definition processFailedPayment ::
  "env \<Rightarrow> stripe_object \<Rightarrow> state \<Rightarrow> (js_error + unit) \<times> state" where
  "processFailedPayment env paymentIntent st =
     (let (ts, st0) = new_Date_toISOString env st;
          paymentData0 =
            \<lparr>paymentId = obj_id paymentIntent,
             customerId = obj_customer paymentIntent,
             customerEmail = None,
             amount = obj_amount paymentIntent,
             currency = obj_currency paymentIntent,
             failureReason =
               js_or_str (optional_chain (last_payment_error paymentIntent)) ''Unknown error'',
             pd_timestamp = ts\<rparr>;
          (paymentData, st1) = lookup_customer_email env paymentIntent paymentData0 st0;
          st2 = addLog env (''Processing failed payment: '' @ paymentId paymentData @ '' - $'' @
                              toFixed2 (amount paymentData)) ''info'' st1
      in case sendEmailAlert env paymentData st2 of
           (Inl e, st3) \<Rightarrow> (Inl e, st3)
         | (Inr u, st3) \<Rightarrow> logToAirtable env paymentData st3)"

subsection \<open>\<open>POST /webhook\<close>\<close>

text \<open>The \<open>try\<close> block of the \<open>invoice.payment_failed\<close> branch, then the branch with its \<open>catch\<close>.\<close>

definition invoice_try :: "env \<Rightarrow> string \<Rightarrow> state \<Rightarrow> (js_error + unit) \<times> state" where
  "invoice_try env pi_ref st =
     (let st1 = st\<lparr>calls := calls st @ [PaymentIntentsRetrieve pi_ref]\<rparr>
      in case paymentIntents_retrieve env pi_ref of
           Inl e \<Rightarrow> (Inl e, st1)
         | Inr paymentIntent \<Rightarrow> processFailedPayment env paymentIntent st1)"

definition handle_invoice :: "env \<Rightarrow> stripe_object \<Rightarrow> state \<Rightarrow> (js_error + unit) \<times> state" where
  "handle_invoice env invoice st =
     (case payment_intent invoice of
        None \<Rightarrow> (Inr (), st)
      | Some pi_ref \<Rightarrow>
          if pi_ref = [] then (Inr (), st)
          else
            (case invoice_try env pi_ref st of
               (Inr u, st1) \<Rightarrow> (Inr (), st1)
             | (Inl error, st1) \<Rightarrow>
                 (Inr (), addLog env (''Error processing invoice payment failure: '' @
                                        interpolate (err_message error)) ''error'' st1)))"

definition handle_charge :: "env \<Rightarrow> stripe_object \<Rightarrow> state \<Rightarrow> (js_error + unit) \<times> state" where
  "handle_charge env charge st =
     (let (ts, st0) = new_Date_toISOString env st;
          paymentData =
            \<lparr>paymentId = obj_id charge,
             customerId = obj_customer charge,
             customerEmail = js_or (optional_chain (billing_details charge)) None,
             amount = obj_amount charge,
             currency = obj_currency charge,
             failureReason = js_or_str (failure_message charge) ''Unknown error'',
             pd_timestamp = ts\<rparr>
      in case sendEmailAlert env paymentData st0 of
           (Inl e, st1) \<Rightarrow> (Inl e, st1)
         | (Inr u, st1) \<Rightarrow> logToAirtable env paymentData st1)"

text \<open>The \<open>if \<dots> else if\<close> chain on \<open>event.type\<close>.\<close>

definition dispatch :: "env \<Rightarrow> event \<Rightarrow> state \<Rightarrow> (js_error + unit) \<times> state" where
  "dispatch env ev st =
     (if event_type ev = ''payment_intent.payment_failed''
        then processFailedPayment env (data_object ev) st
      else if event_type ev = ''invoice.payment_failed''
        then handle_invoice env (data_object ev) st
      else if event_type ev = ''charge.failed''
        then handle_charge env (data_object ev) st
      else (Inr (), st))"

text \<open>
  The handler. Its result is \<open>None\<close> when an exception leaves the \<open>async\<close> function before
  \<open>res\<close> is used: Express then sends nothing.
\<close>

definition webhook :: "env \<Rightarrow> request \<Rightarrow> state \<Rightarrow> response option \<times> state" where
  "webhook env req st =
     (case constructEvent env (req_body req) (stripe_signature req) (STRIPE_WEBHOOK_SECRET env) of
        Inl err \<Rightarrow>
          (Some \<lparr>status = 400, body = Text (''Webhook Error: '' @ interpolate (err_message err))\<rparr>,
           addLog env (''Webhook signature verification failed: '' @ interpolate (err_message err)) ''error'' st)
      | Inr ev \<Rightarrow>
          (let st1 = addLog env (''Received webhook event: '' @ event_type ev) ''info'' st
           in case dispatch env ev st1 of
                (Inl e, st2) \<Rightarrow> (None, st2)
              | (Inr u, st2) \<Rightarrow> (Some \<lparr>status = 200, body = Json_received True\<rparr>, st2)))"

subsection \<open>\<open>POST /test\<close>\<close>




subsection \<open>\<open>GET /health\<close>\<close>

definition check_stripe :: "env \<Rightarrow> health \<Rightarrow> health" where
  "check_stripe env h =
     (case balance_retrieve env of
        Inr u \<Rightarrow> h\<lparr>checks := (checks h)(''stripe'' \<mapsto> ''connected'')\<rparr>
      | Inl error \<Rightarrow>
          h\<lparr>checks := (checks h)(''stripe'' \<mapsto> ''error''), health_status := ''unhealthy''\<rparr>)"

definition check_gmail :: "env \<Rightarrow> health \<Rightarrow> health" where
  "check_gmail env h =
     (case gmail_verify env of
        Inr u \<Rightarrow> h\<lparr>checks := (checks h)(''gmail'' \<mapsto> ''connected'')\<rparr>
      | Inl error \<Rightarrow>
          h\<lparr>checks := (checks h)(''gmail'' \<mapsto> ''error''), health_status := ''unhealthy''\<rparr>)"

definition check_airtable :: "env \<Rightarrow> health \<Rightarrow> health" where
  "check_airtable env h =
     (case airtable_firstPage env of
        Inr u \<Rightarrow> h\<lparr>checks := (checks h)(''airtable'' \<mapsto> ''connected'')\<rparr>
      | Inl error \<Rightarrow> h\<lparr>checks := (checks h)(''airtable'' \<mapsto> ''table_needs_creation'')\<rparr>)"

definition run_checks :: "env \<Rightarrow> string \<Rightarrow> health" where
  "run_checks env ts =
     (let health0 = \<lparr>health_status = ''healthy'', health_timestamp = ts, checks = Map.empty\<rparr>;
          health1 = check_stripe env health0;
          health2 = check_gmail env health1
      in check_airtable env health2)"

definition get_health :: "env \<Rightarrow> state \<Rightarrow> response \<times> state" where
  "get_health env st =
     (let (ts, st1) = new_Date_toISOString env st
      in (\<lparr>status = 200, body = Json_health (run_checks env ts)\<rparr>,
          st1\<lparr>calls := calls st1 @ [BalanceRetrieve, GmailVerify, AirtableSelect]\<rparr>))"

subsection \<open>Reading a decimal rendering back\<close>




subsection \<open>Concrete environments and inputs\<close>

text \<open>
  An environment in which every collaborator answers, and variants in which some of them
  reject. The signature check of these environments accepts the header value \<open>valid\<close> and
  takes the event type from the payload.
\<close>

definition demo_object :: stripe_object where
  "demo_object =
     \<lparr>obj_id = ''pi_1'', obj_customer = Some ''cus_1'', obj_amount = 2500,
      obj_currency = ''usd'', last_payment_error = Some (Some ''Your card was declined.''),
      payment_intent = Some ''pi_1'', billing_details = Some None,
      failure_message = Some ''Your card was declined.''\<rparr>"

definition demo_env :: env where
  "demo_env =
     \<lparr>constructEvent = (\<lambda>payload sig secret.
        if sig = Some ''valid'' then Inr \<lparr>event_type = payload, data_object = demo_object\<rparr>
        else Inl (Error (Some ''No signatures found matching the expected signature for payload''))),
      customers_retrieve = (\<lambda>c. Inr (Some ''jane@example.com'')),
      paymentIntents_retrieve = (\<lambda>r. Inr demo_object),
      balance_retrieve = Inr (),
      sendMail = (\<lambda>opts. Inr ()),
      gmail_verify = Inr (),
      airtable_create = (\<lambda>r. Inr ()),
      airtable_firstPage = Inr (),
      Date_now = (\<lambda>k. 1756506573973 + k),
      toISOString = show_nat,
      GMAIL_USER = Some ''monitor@example.com'',
      ALERT_EMAIL = None,
      STRIPE_WEBHOOK_SECRET = Some ''whsec_demo''\<rparr>"

definition failing_env :: env where
  "failing_env =
     demo_env\<lparr>customers_retrieve := (\<lambda>c. Inl (Error (Some ''No such customer''))),
              paymentIntents_retrieve := (\<lambda>r. Inl (Error (Some ''No such payment_intent''))),
              sendMail := (\<lambda>opts. Inl (Error (Some ''Invalid login''))),
              airtable_create := (\<lambda>r. Inl (Error (Some ''NOT_FOUND''))),
              balance_retrieve := Inl (Error (Some ''Invalid API Key'')),
              airtable_firstPage := Inl (Error (Some ''NOT_FOUND''))\<rparr>"

definition demo_request :: "string \<Rightarrow> request" where
  "demo_request payload = \<lparr>req_body = payload, stripe_signature = Some ''valid''\<rparr>"

definition invoice_without_reference :: stripe_object where
  "invoice_without_reference = demo_object\<lparr>payment_intent := None\<rparr>"

definition invoice_env :: "stripe_object \<Rightarrow> env" where
  "invoice_env invoice =
     failing_env\<lparr>constructEvent := (\<lambda>payload sig secret.
        if sig = Some ''valid'' then Inr \<lparr>event_type = payload, data_object = invoice\<rparr>
        else Inl (Error (Some ''No signatures found matching the expected signature for payload'')))\<rparr>"

definition airtable_down_env :: env where
  "airtable_down_env = demo_env\<lparr>airtable_firstPage := Inl (Error (Some ''NOT_FOUND''))\<rparr>"

definition lookup_down_env :: env where
  "lookup_down_env = demo_env\<lparr>customers_retrieve := (\<lambda>c. Inl (Error (Some ''No such customer'')))\<rparr>"



subsection \<open>Facts about the built-ins\<close>

lemma slice_last_length: "length (slice_last n xs) = min n (length xs)"
  by (simp add: slice_last_def)

lemma slice_last_all: "length xs \<le> n \<Longrightarrow> slice_last n xs = xs"
  by (simp add: slice_last_def)

lemma slice_last_append:
  "slice_last n (slice_last n xs @ ys) = slice_last n (xs @ ys)"
proof (cases "length xs \<le> n")
  case True
  then show ?thesis by (simp add: slice_last_def)
next
  case False
  then have "length xs - (length xs - n) = n" by arith
  moreover have "length xs + length ys - n = length ys + (length xs - n)" using False by arith
  ultimately show ?thesis by (simp add: slice_last_def)
qed

lemma slice_last_slice_last: "m \<le> n \<Longrightarrow> slice_last m (slice_last n xs) = slice_last m xs"
proof -
  assume mn: "m \<le> n"
  have "length xs - (length xs - n) - m + (length xs - n) = length xs - m" using mn by arith
  then show ?thesis by (simp add: slice_last_def)
qed

lemma slice_last_long: "n \<le> length ys \<Longrightarrow> slice_last n (xs @ ys) = drop (length ys - n) ys"
  by (simp add: slice_last_def)

lemma upper_levels:
  "toUpperCase ''info'' = ''INFO''" "toUpperCase ''warn'' = ''WARN''"
  "toUpperCase ''error'' = ''ERROR''"
  by (simp_all add: toUpperCase_def upper_char_def)













subsection \<open>Facts about the log buffer\<close>

lemma initial_state_fields:
  "logs initial_state = []" "console initial_state = []"
  "clock initial_state = 0" "calls initial_state = []"
  by (simp_all add: initial_state_def)

lemma addLog_logs:
  "logs (addLog env msg lvl st) =
     slice_last 100 (logs st @ [\<lparr>timestamp = toISOString env (Date_now env (clock st)),
                                  level = lvl, message = msg\<rparr>])"
  by (simp add: addLog_def new_Date_toISOString_def Let_def slice_last_def)

lemma addLog_clock: "clock (addLog env msg lvl st) = Suc (clock st)"
  by (simp add: addLog_def new_Date_toISOString_def Let_def)

lemma addLog_calls: "calls (addLog env msg lvl st) = calls st"
  by (simp add: addLog_def new_Date_toISOString_def Let_def)

lemma addLog_console:
  "console (addLog env msg lvl st) = console st @ [''['' @ toUpperCase lvl @ ''] '' @ msg]"
  by (simp add: addLog_def new_Date_toISOString_def Let_def)

lemma addLogs_logs:
  "ms \<noteq> [] \<Longrightarrow>
   logs (addLogs env ms st) = slice_last 100 (logs st @ entries_from env (clock st) ms)"
proof (induction ms arbitrary: st)
  case Nil
  then show ?case by simp
next
  case (Cons p ms)
  obtain msg lvl where p: "p = (msg, lvl)" by (cases p)
  show ?case
  proof (cases "ms = []")
    case True
    then show ?thesis by (simp add: p addLog_logs)
  next
    case False
    from Cons.IH [OF False, of "addLog env msg lvl st"]
    show ?thesis
      by (simp add: p addLog_logs addLog_clock slice_last_append)
  qed
qed

lemma addLogs_logs_initial:
  "logs (addLogs env ms initial_state) = slice_last 100 (entries_from env 0 ms)"
proof (cases "ms = []")
  case True
  then show ?thesis by (simp add: initial_state_def slice_last_def)
next
  case False
  then show ?thesis by (simp add: addLogs_logs initial_state_def)
qed

lemma addLogs_calls: "calls (addLogs env ms st) = calls st"
  by (induction ms arbitrary: st) (auto simp: addLog_calls)

lemma addLogs_console_length:
  "length (console (addLogs env ms st)) = length (console st) + length ms"
  by (induction ms arbitrary: st) (auto simp: addLog_console)

lemma entries_from_length: "length (entries_from env k ms) = length ms"
  by (induction ms arbitrary: k) auto

lemma entries_from_message: "map message (entries_from env k ms) = map fst ms"
  by (induction ms arbitrary: k) auto

subsection \<open>Facts about the Notifier and the Record Logger\<close>

lemma sendEmailAlert_returns: "fst (sendEmailAlert env pd st) = Inr ()"
  by (simp add: sendEmailAlert_def split: prod.splits sum.splits)

lemma sendEmailAlert_calls:
  "calls (snd (sendEmailAlert env pd st)) = calls st @ [SendMail (mailOptions env pd)]"
  by (simp add: sendEmailAlert_def sendEmailAlert_try_def Let_def addLog_calls
      split: prod.splits sum.splits)

lemma logToAirtable_calls:
  "calls (snd (logToAirtable env pd st)) = calls st @ [AirtableCreate (airtable_fields pd)]"
  by (simp add: logToAirtable_def logToAirtable_try_def Let_def addLog_calls addLogs_calls
      split: prod.splits sum.splits option.splits)

text \<open>\<open>logToAirtable\<close> throws exactly when the write is rejected without a \<open>message\<close>.\<close>

lemma logToAirtable_result:
  "fst (logToAirtable env pd st) =
     (if airtable_create env (airtable_fields pd) = Inl (Error None)
      then Inl TypeError_includes else Inr ())"
proof (cases "airtable_create env (airtable_fields pd)")
  case (Inr u)
  then show ?thesis by (simp add: logToAirtable_def logToAirtable_try_def Let_def)
next
  case (Inl e)
  obtain m where e: "e = Error m" by (cases e)
  show ?thesis
    using Inl by (cases m) (simp_all add: e logToAirtable_def logToAirtable_try_def Let_def)
qed

text \<open>The two statements \<open>await sendEmailAlert(\<dots>); await logToAirtable(\<dots>)\<close> in sequence.\<close>

lemma notify_then_log_result:
  "fst (case sendEmailAlert env pd s of
          (Inl e, s1) \<Rightarrow> (Inl e, s1)
        | (Inr u, s1) \<Rightarrow> logToAirtable env pd s1) =
     (if airtable_create env (airtable_fields pd) = Inl (Error None)
      then Inl TypeError_includes else Inr ())"
proof -
  obtain s1 where "sendEmailAlert env pd s = (Inr (), s1)"
    using sendEmailAlert_returns [of env pd s] by (cases "sendEmailAlert env pd s") auto
  then show ?thesis by (simp add: logToAirtable_result)
qed

lemma processFailedPayment_result:
  "\<exists>pd. fst (processFailedPayment env pi st) =
     (if airtable_create env (airtable_fields pd) = Inl (Error None)
      then Inl TypeError_includes else Inr ())"
  by (simp add: processFailedPayment_def Let_def notify_then_log_result split: prod.splits)
    blast

lemma handle_charge_result:
  "\<exists>pd. fst (handle_charge env charge st) =
     (if airtable_create env (airtable_fields pd) = Inl (Error None)
      then Inl TypeError_includes else Inr ())"
  by (simp add: handle_charge_def Let_def notify_then_log_result split: prod.splits)
    blast

lemma handle_invoice_returns: "fst (handle_invoice env invoice st) = Inr ()"
  by (simp add: handle_invoice_def split: option.splits prod.splits sum.splits)

text \<open>When no write is rejected without a \<open>message\<close>, nothing leaves the helpers.\<close>

lemma dispatch_returns:
  "\<forall>r. airtable_create env r \<noteq> Inl (Error None) \<Longrightarrow> fst (dispatch env ev st) = Inr ()"
  using processFailedPayment_result [of env "data_object ev" st]
    handle_charge_result [of env "data_object ev" st]
  by (auto simp: dispatch_def handle_invoice_returns)

lemma webhook_acknowledges_when_rejections_have_messages:
  "\<forall>r. airtable_create env r \<noteq> Inl (Error None) \<Longrightarrow>
   constructEvent env (req_body req) (stripe_signature req) (STRIPE_WEBHOOK_SECRET env) = Inr ev
   \<Longrightarrow> fst (webhook env req st) = Some \<lparr>status = 200, body = Json_received True\<rparr>"
proof -
  assume msgs: "\<forall>r. airtable_create env r \<noteq> Inl (Error None)"
  assume verified:
    "constructEvent env (req_body req) (stripe_signature req) (STRIPE_WEBHOOK_SECRET env) = Inr ev"
  let ?st1 = "addLog env (''Received webhook event: '' @ event_type ev) ''info'' st"
  obtain r st2 where d: "dispatch env ev ?st1 = (r, st2)" by (cases "dispatch env ev ?st1")
  with dispatch_returns [OF msgs, of ev ?st1] have "r = Inr ()" by simp
  with verified d show ?thesis
    by (simp add: webhook_def Let_def)
qed













section \<open>The claims\<close>

subsection \<open>C1: acknowledging a verified webhook\<close>


subsection \<open>C2: a failed signature check ends the request\<close>

text \<open>
  C2. Whenever \<open>stripe.webhooks.constructEvent\<close> throws, \<open>POST /webhook\<close> answers with
  status 400 and the text \<open>Webhook Error: \<close> followed by the error's message, records exactly
  one entry, at level \<open>error\<close>, and makes no request to any external service: in particular
  no mail is handed to the transport and no Airtable record is created.
\<close>

theorem webhook_rejects_bad_signature:
  "constructEvent env (req_body req) (stripe_signature req) (STRIPE_WEBHOOK_SECRET env) = Inl err
   \<Longrightarrow>
   webhook env req st =
     (Some \<lparr>status = 400, body = Text (''Webhook Error: '' @ interpolate (err_message err))\<rparr>,
      addLog env (''Webhook signature verification failed: '' @ interpolate (err_message err)) ''error'' st) \<and>
   calls (snd (webhook env req st)) = calls st \<and>
   console (snd (webhook env req st)) =
     console st @ [''[ERROR] Webhook signature verification failed: '' @ interpolate (err_message err)] \<and>
   logs (snd (webhook env req st)) =
     slice_last 100
       (logs st @ [\<lparr>timestamp = toISOString env (Date_now env (clock st)), level = ''error'',
                     message = ''Webhook signature verification failed: '' @ interpolate (err_message err)\<rparr>])"
  by (simp add: webhook_def addLog_calls addLog_console addLog_logs upper_levels)

theorem webhook_rejects_bad_signature_witness:
  "constructEvent demo_env ''{}'' None (STRIPE_WEBHOOK_SECRET demo_env)
     = Inl (Error (Some ''No signatures found matching the expected signature for payload'')) \<and>
   fst (webhook demo_env \<lparr>req_body = ''{}'', stripe_signature = None\<rparr> initial_state) =
     Some \<lparr>status = 400,
           body = Text ''Webhook Error: No signatures found matching the expected signature for payload''\<rparr> \<and>
   calls (snd (webhook demo_env \<lparr>req_body = ''{}'', stripe_signature = None\<rparr> initial_state)) = [] \<and>
   console (snd (webhook demo_env \<lparr>req_body = ''{}'', stripe_signature = None\<rparr> initial_state)) =
     [''[ERROR] Webhook signature verification failed: No signatures found matching the expected signature for payload'']"
proof -
  let ?req = "\<lparr>req_body = ''{}'', stripe_signature = None\<rparr>"
  have h: "constructEvent demo_env (req_body ?req) (stripe_signature ?req)
             (STRIPE_WEBHOOK_SECRET demo_env)
           = Inl (Error (Some ''No signatures found matching the expected signature for payload''))"
    by (simp add: demo_env_def)
  from webhook_rejects_bad_signature [OF h, of initial_state] h
  show ?thesis by (auto simp: initial_state_fields interpolate_def)
qed

subsection \<open>C3: what \<open>GET /logs\<close> reports\<close>

text \<open>
  C3, as amended. \<open>GET /logs\<close> returns the last 50 entries of the buffer, so at most 50, and
  a \<open>total\<close> equal to the number of entries the buffer holds at that moment. After \<open>n\<close>
  calls of \<open>addLog\<close> from the empty buffer that number is \<open>min n 100\<close>: \<open>total\<close> is the
  cumulative count only as long as no entry has been evicted.
\<close>

theorem logs_endpoint_reports_buffer_size:
  "status (get_logs st) = 200 \<and>
   body (get_logs st) = Json_logs (logs_body st) \<and>
   resp_logs (logs_body st) = slice_last 50 (logs st) \<and>
   length (resp_logs (logs_body st)) \<le> 50 \<and>
   total (logs_body st) = length (logs st) \<and>
   total (logs_body (addLogs env ms initial_state)) = min (length ms) 100 \<and>
   resp_logs (logs_body (addLogs env ms initial_state)) = slice_last 50 (entries_from env 0 ms)"
proof -
  have "slice_last 50 (slice_last 100 (entries_from env 0 ms)) = slice_last 50 (entries_from env 0 ms)"
    by (rule slice_last_slice_last) simp
  then show ?thesis
    by (simp add: get_logs_def logs_body_def slice_last_length addLogs_logs_initial
        entries_from_length min.commute)
qed

text \<open>
  C3 as stated fails: after 101 calls of \<open>addLog\<close>, each of which wrote its line to the
  console, \<open>total\<close> is 100 and not the 101 entries recorded.
\<close>

theorem logs_total_not_cumulative:
  "length (console (addLogs demo_env (replicate 101 (''tick'', ''info'')) initial_state)) = 101 \<and>
   total (logs_body (addLogs demo_env (replicate 101 (''tick'', ''info'')) initial_state)) = 100 \<and>
   total (logs_body (addLogs demo_env (replicate 101 (''tick'', ''info'')) initial_state))
     \<noteq> length (replicate 101 (''tick'', ''info''))"
  by (simp add: logs_body_def addLogs_logs_initial addLogs_console_length slice_last_length
      entries_from_length initial_state_fields)

subsection \<open>C4: the buffer keeps the most recent 100 entries\<close>

text \<open>
  C4. The buffer is empty at start and every \<open>addLog\<close> leaves it with the last 100 entries
  of the old buffer extended by the new entry, so it never holds more than 100 entries
  between two calls. After any run of appends from the empty buffer it holds the last 100
  of the entries appended, in append order; after 150 appends (from any state) it holds
  exactly the entries of appends 51 to 150, in that order.
\<close>

theorem log_buffer_keeps_last_100:
  "length (logs initial_state) \<le> 100 \<and>
   length (logs (addLog env msg lvl st)) \<le> 100 \<and>
   logs (addLog env msg lvl st) =
     slice_last 100 (logs st @ [\<lparr>timestamp = toISOString env (Date_now env (clock st)),
                                  level = lvl, message = msg\<rparr>]) \<and>
   length (logs (addLogs env ms initial_state)) \<le> 100 \<and>
   logs (addLogs env ms initial_state) = slice_last 100 (entries_from env 0 ms) \<and>
   (length ms = 150 \<longrightarrow>
      logs (addLogs env ms st) = drop 50 (entries_from env (clock st) ms) \<and>
      length (logs (addLogs env ms st)) = 100 \<and>
      map message (logs (addLogs env ms st)) = drop 50 (map fst ms))"
proof -
  have a: "length (logs initial_state) \<le> 100" by (simp add: initial_state_def)
  have b: "length (logs (addLog env msg lvl st)) \<le> 100"
    by (simp add: addLog_logs slice_last_length)
  have c: "length (logs (addLogs env ms initial_state)) \<le> 100"
    by (simp add: addLogs_logs_initial slice_last_length)
  have d: "logs (addLogs env ms st) = drop 50 (entries_from env (clock st) ms)"
    if len: "length ms = 150"
  proof -
    from len have "ms \<noteq> []" by auto
    then have "logs (addLogs env ms st) = slice_last 100 (logs st @ entries_from env (clock st) ms)"
      by (rule addLogs_logs)
    also have "\<dots> = drop (length (entries_from env (clock st) ms) - 100) (entries_from env (clock st) ms)"
      by (rule slice_last_long) (simp add: entries_from_length len)
    finally show ?thesis by (simp add: entries_from_length len)
  qed
  have e: "map message (logs (addLogs env ms st)) = drop 50 (map fst ms)" if "length ms = 150"
  proof -
    have "map message (drop 50 (entries_from env (clock st) ms)) =
          drop 50 (map message (entries_from env (clock st) ms))"
      by (simp add: drop_map)
    with d [OF that] show ?thesis by (simp only: entries_from_message)
  qed
  have f: "length (logs (addLogs env ms st)) = 100" if "length ms = 150"
    using d [OF that] that by (simp add: entries_from_length)
  from a b c d e f show ?thesis
    by (simp add: addLog_logs addLogs_logs_initial)
qed

theorem log_buffer_keeps_last_100_witness:
  "length (map (\<lambda>i. (show_nat i, ''info'')) [0..<150]) = 150 \<and>
   map message (logs (addLogs demo_env (map (\<lambda>i. (show_nat i, ''info'')) [0..<150]) initial_state))
     = map show_nat [50..<150]"
proof -
  let ?ms = "map (\<lambda>i. (show_nat i, ''info'')) [0..<150]"
  have len: "length ?ms = 150" by simp
  from log_buffer_keeps_last_100 [where env = demo_env and ms = "?ms" and st = initial_state] len
  have "map message (logs (addLogs demo_env ?ms initial_state)) = drop 50 (map fst ?ms)"
    by blast
  also have "map fst ?ms = map show_nat [0..<150]"
    by (simp only: list.map_comp comp_def fst_conv)
  also have "drop 50 (map show_nat [0..<150]) = map show_nat (drop 50 [0..<150])"
    by (simp only: drop_map)
  also have "drop 50 [0..<150] = [50..<150]"
    by (simp only: drop_upt) simp
  finally show ?thesis using len by blast
qed

subsection \<open>C5: an invoice whose payment intent cannot be fetched\<close>

text \<open>
  C5. For a verified \<open>invoice.payment_failed\<close> event whose invoice references a payment
  intent, when \<open>stripe.paymentIntents.retrieve\<close> throws, the handler still answers 200
  \<open>{received: true}\<close>; the only external request is that fetch (no mail, no Airtable
  record), and the handler records two entries: the \<open>info\<close> entry for the received event
  and exactly one \<open>error\<close> entry, carrying the message of the fetch error.
\<close>

theorem invoice_fetch_failure_dropped:
  "constructEvent env (req_body req) (stripe_signature req) (STRIPE_WEBHOOK_SECRET env) = Inr ev
   \<Longrightarrow> event_type ev = ''invoice.payment_failed''
   \<Longrightarrow> payment_intent (data_object ev) = Some pi_ref
   \<Longrightarrow> pi_ref \<noteq> []
   \<Longrightarrow> paymentIntents_retrieve env pi_ref = Inl err
   \<Longrightarrow>
   fst (webhook env req st) = Some \<lparr>status = 200, body = Json_received True\<rparr> \<and>
   calls (snd (webhook env req st)) = calls st @ [PaymentIntentsRetrieve pi_ref] \<and>
   console (snd (webhook env req st)) =
     console st @ [''[INFO] Received webhook event: invoice.payment_failed'',
                   ''[ERROR] Error processing invoice payment failure: '' @ interpolate (err_message err)] \<and>
   logs (snd (webhook env req st)) =
     slice_last 100
       (logs st @ [\<lparr>timestamp = toISOString env (Date_now env (clock st)), level = ''info'',
                     message = ''Received webhook event: invoice.payment_failed''\<rparr>,
                   \<lparr>timestamp = toISOString env (Date_now env (Suc (clock st))),
                     level = ''error'',
                     message = ''Error processing invoice payment failure: '' @ interpolate (err_message err)\<rparr>])"
  by (simp add: webhook_def dispatch_def handle_invoice_def invoice_try_def Let_def
      addLog_calls addLog_console addLog_logs addLog_clock upper_levels slice_last_append)

theorem invoice_fetch_failure_dropped_witness:
  "constructEvent failing_env (req_body (demo_request ''invoice.payment_failed''))
     (stripe_signature (demo_request ''invoice.payment_failed''))
     (STRIPE_WEBHOOK_SECRET failing_env)
     = Inr \<lparr>event_type = ''invoice.payment_failed'', data_object = demo_object\<rparr> \<and>
   event_type \<lparr>event_type = ''invoice.payment_failed'', data_object = demo_object\<rparr>
     = ''invoice.payment_failed'' \<and>
   payment_intent (data_object
      \<lparr>event_type = ''invoice.payment_failed'', data_object = demo_object\<rparr>) = Some ''pi_1'' \<and>
   ''pi_1'' \<noteq> [] \<and>
   paymentIntents_retrieve failing_env ''pi_1'' = Inl (Error (Some ''No such payment_intent'')) \<and>
   fst (webhook failing_env (demo_request ''invoice.payment_failed'') initial_state)
     = Some \<lparr>status = 200, body = Json_received True\<rparr> \<and>
   calls (snd (webhook failing_env (demo_request ''invoice.payment_failed'') initial_state))
     = [PaymentIntentsRetrieve ''pi_1''] \<and>
   console (snd (webhook failing_env (demo_request ''invoice.payment_failed'') initial_state)) =
     [''[INFO] Received webhook event: invoice.payment_failed'',
      ''[ERROR] Error processing invoice payment failure: No such payment_intent'']"
proof -
  let ?req = "demo_request ''invoice.payment_failed''"
  let ?ev = "\<lparr>event_type = ''invoice.payment_failed'', data_object = demo_object\<rparr>"
  have h1: "constructEvent failing_env (req_body ?req) (stripe_signature ?req)
              (STRIPE_WEBHOOK_SECRET failing_env) = Inr ?ev"
    by (simp add: failing_env_def demo_env_def demo_request_def)
  have h2: "event_type ?ev = ''invoice.payment_failed''" by simp
  have h3: "payment_intent (data_object ?ev) = Some ''pi_1''" by (simp add: demo_object_def)
  have h4: "''pi_1'' \<noteq> []" by simp
  have h5: "paymentIntents_retrieve failing_env ''pi_1'' = Inl (Error (Some ''No such payment_intent''))"
    by (simp add: failing_env_def)
  from invoice_fetch_failure_dropped [OF h1 h2 h3 h4 h5, of initial_state] h1 h2 h3 h5
  show ?thesis by (auto simp: initial_state_fields interpolate_def)
qed

subsection \<open>C6: how the Notifier renders a failure record\<close>



subsection \<open>C7: a failed customer lookup does not stop processing\<close>

text \<open>
  C7. When the payment intent names a customer and \<open>stripe.customers.retrieve\<close> throws,
  \<open>processFailedPayment\<close> records a \<open>warn\<close> entry with the error's message, then the
  \<open>Processing failed payment\<close> entry, and goes on to call \<open>sendEmailAlert\<close> and
  \<open>logToAirtable\<close> with a record whose \<open>customerEmail\<close> is absent: its result is that
  of \<open>logToAirtable\<close>. The external requests are the lookup, one mail and one Airtable
  record, in this order.
\<close>

theorem customer_lookup_failure_is_not_fatal:
  "obj_customer paymentIntent = Some c \<Longrightarrow> c \<noteq> []
   \<Longrightarrow> customers_retrieve env c = Inl err
   \<Longrightarrow>
   (let paymentData =
          \<lparr>paymentId = obj_id paymentIntent, customerId = Some c, customerEmail = None,
           amount = obj_amount paymentIntent, currency = obj_currency paymentIntent,
           failureReason =
             js_or_str (optional_chain (last_payment_error paymentIntent)) ''Unknown error'',
           pd_timestamp = toISOString env (Date_now env (clock st))\<rparr>;
        warned = addLog env (''Could not retrieve customer email: '' @ interpolate (err_message err)) ''warn''
                   (st\<lparr>clock := Suc (clock st), calls := calls st @ [CustomersRetrieve c]\<rparr>);
        announced = addLog env (''Processing failed payment: '' @ obj_id paymentIntent @
                       '' - $'' @ toFixed2 (obj_amount paymentIntent)) ''info'' warned
    in processFailedPayment env paymentIntent st =
         logToAirtable env paymentData (snd (sendEmailAlert env paymentData announced))
       \<and> console announced =
           console st @ [''[WARN] Could not retrieve customer email: '' @ interpolate (err_message err),
                         ''[INFO] Processing failed payment: '' @ obj_id paymentIntent @
                            '' - $'' @ toFixed2 (obj_amount paymentIntent)]
       \<and> calls (snd (processFailedPayment env paymentIntent st)) =
           calls st @ [CustomersRetrieve c, SendMail (mailOptions env paymentData),
                       AirtableCreate (airtable_fields paymentData)])"
proof -
  assume cust: "obj_customer paymentIntent = Some c" and ne: "c \<noteq> []"
    and fail: "customers_retrieve env c = Inl err"
  define paymentData where "paymentData =
          \<lparr>paymentId = obj_id paymentIntent, customerId = Some c, customerEmail = None,
           amount = obj_amount paymentIntent, currency = obj_currency paymentIntent,
           failureReason =
             js_or_str (optional_chain (last_payment_error paymentIntent)) ''Unknown error'',
           pd_timestamp = toISOString env (Date_now env (clock st))\<rparr>"
  define warned where "warned =
     addLog env (''Could not retrieve customer email: '' @ interpolate (err_message err)) ''warn''
                   (st\<lparr>clock := Suc (clock st), calls := calls st @ [CustomersRetrieve c]\<rparr>)"
  define announced where "announced =
     addLog env (''Processing failed payment: '' @ obj_id paymentIntent @
                       '' - $'' @ toFixed2 (obj_amount paymentIntent)) ''info'' warned"
  obtain s1 where s1: "sendEmailAlert env paymentData announced = (Inr (), s1)"
    using sendEmailAlert_returns [of env paymentData announced]
    by (cases "sendEmailAlert env paymentData announced") auto
  obtain r s2 where s2: "logToAirtable env paymentData s1 = (r, s2)"
    by (cases "logToAirtable env paymentData s1")
  have run: "processFailedPayment env paymentIntent st = (r, s2)"
    using cust ne fail s1 s2
    by (simp add: processFailedPayment_def lookup_customer_email_def new_Date_toISOString_def
        Let_def paymentData_def warned_def announced_def)
  have cons: "console announced =
           console st @ [''[WARN] Could not retrieve customer email: '' @ interpolate (err_message err),
                         ''[INFO] Processing failed payment: '' @ obj_id paymentIntent @
                            '' - $'' @ toFixed2 (obj_amount paymentIntent)]"
    by (simp add: announced_def warned_def addLog_console upper_levels)
  have "calls s1 = calls announced @ [SendMail (mailOptions env paymentData)]"
    using sendEmailAlert_calls [of env paymentData announced] s1 by simp
  moreover have "calls s2 = calls s1 @ [AirtableCreate (airtable_fields paymentData)]"
    using logToAirtable_calls [of env paymentData s1] s2 by simp
  moreover have "calls announced = calls st @ [CustomersRetrieve c]"
    by (simp add: announced_def warned_def addLog_calls)
  ultimately have cl: "calls s2 = calls st @ [CustomersRetrieve c, SendMail (mailOptions env paymentData),
                       AirtableCreate (airtable_fields paymentData)]" by simp
  from run cons cl s1 s2 show ?thesis
    unfolding Let_def paymentData_def [symmetric] warned_def [symmetric] announced_def [symmetric]
    by simp
qed

theorem customer_lookup_failure_is_not_fatal_witness:
  "obj_customer demo_object = Some ''cus_1'' \<and> ''cus_1'' \<noteq> [] \<and>
   customers_retrieve lookup_down_env ''cus_1'' = Inl (Error (Some ''No such customer'')) \<and>
   fst (processFailedPayment lookup_down_env demo_object initial_state) = Inr () \<and>
   calls (snd (processFailedPayment lookup_down_env demo_object initial_state)) =
     [CustomersRetrieve ''cus_1'',
      SendMail (mailOptions lookup_down_env
        \<lparr>paymentId = ''pi_1'', customerId = Some ''cus_1'', customerEmail = None,
         amount = 2500, currency = ''usd'', failureReason = ''Your card was declined.'',
         pd_timestamp = toISOString lookup_down_env (Date_now lookup_down_env 0)\<rparr>),
      AirtableCreate (airtable_fields
        \<lparr>paymentId = ''pi_1'', customerId = Some ''cus_1'', customerEmail = None,
         amount = 2500, currency = ''usd'', failureReason = ''Your card was declined.'',
         pd_timestamp = toISOString lookup_down_env (Date_now lookup_down_env 0)\<rparr>)]"
proof -
  have h1: "obj_customer demo_object = Some ''cus_1''" by (simp add: demo_object_def)
  have h2: "''cus_1'' \<noteq> []" by simp
  have h3: "customers_retrieve lookup_down_env ''cus_1'' = Inl (Error (Some ''No such customer''))"
    by (simp add: lookup_down_env_def)
  have fields: "obj_id demo_object = ''pi_1''" "obj_amount demo_object = 2500"
    "obj_currency demo_object = ''usd''"
    "js_or_str (optional_chain (last_payment_error demo_object)) ''Unknown error''
       = ''Your card was declined.''"
    by (simp_all add: demo_object_def optional_chain_def js_or_str_def)
  have stored: "fst (logToAirtable lookup_down_env pd s) = Inr ()" for pd s
    by (simp add: logToAirtable_result lookup_down_env_def demo_env_def)
  from customer_lookup_failure_is_not_fatal [OF h1 h2 h3, of initial_state] h1 h2 h3
  show ?thesis by (auto simp: Let_def fields initial_state_fields stored)
qed

subsection \<open>C8: whether \<open>POST /test\<close> can answer 500\<close>


subsection \<open>C9: the health status ignores the Airtable check\<close>

text \<open>
  C9. \<open>GET /health\<close> answers 200 with the health object. Its \<open>status\<close> is \<open>unhealthy\<close>
  exactly when the Stripe check or the mail check throws, and \<open>healthy\<close> otherwise; the
  Airtable check leaves \<open>status\<close> as it found it and sets \<open>checks.airtable\<close> to
  \<open>table_needs_creation\<close> when it throws, to \<open>connected\<close> when it does not.
\<close>

theorem health_status_ignores_airtable:
  "fst (get_health env st) =
     \<lparr>status = 200,
      body = Json_health (run_checks env (toISOString env (Date_now env (clock st))))\<rparr> \<and>
   (health_status (run_checks env ts) = ''unhealthy'') =
     (isl (balance_retrieve env) \<or> isl (gmail_verify env)) \<and>
   (health_status (run_checks env ts) = ''healthy'') =
     (\<not> isl (balance_retrieve env) \<and> \<not> isl (gmail_verify env)) \<and>
   health_status (check_airtable env h) = health_status h \<and>
   (isl (airtable_firstPage env) \<longrightarrow>
      checks (run_checks env ts) ''airtable'' = Some ''table_needs_creation'') \<and>
   (\<not> isl (airtable_firstPage env) \<longrightarrow>
      checks (run_checks env ts) ''airtable'' = Some ''connected'')"
proof -
  have a: "fst (get_health env st) =
     \<lparr>status = 200,
      body = Json_health (run_checks env (toISOString env (Date_now env (clock st))))\<rparr>"
    by (simp add: get_health_def new_Date_toISOString_def)
  have b: "health_status (check_airtable env h) = health_status h" for h
    by (simp add: check_airtable_def split: sum.splits)
  have c: "(health_status (run_checks env ts) = ''unhealthy'') =
     (isl (balance_retrieve env) \<or> isl (gmail_verify env))"
    by (simp add: run_checks_def Let_def b check_stripe_def check_gmail_def split: sum.splits)
  have d: "(health_status (run_checks env ts) = ''healthy'') =
     (\<not> isl (balance_retrieve env) \<and> \<not> isl (gmail_verify env))"
    by (simp add: run_checks_def Let_def b check_stripe_def check_gmail_def split: sum.splits)
  have e: "checks (run_checks env ts) ''airtable'' =
     Some (if isl (airtable_firstPage env) then ''table_needs_creation'' else ''connected'')"
    by (simp add: run_checks_def Let_def check_airtable_def split: sum.splits)
  from a b c d e show ?thesis by simp
qed

theorem health_status_ignores_airtable_witness:
  "isl (airtable_firstPage airtable_down_env) \<and>
   \<not> isl (balance_retrieve airtable_down_env) \<and> \<not> isl (gmail_verify airtable_down_env) \<and>
   checks (run_checks airtable_down_env ''now'') ''airtable'' = Some ''table_needs_creation'' \<and>
   health_status (run_checks airtable_down_env ''now'') = ''healthy'' \<and>
   health_status (run_checks airtable_down_env ''now'') \<noteq> ''unhealthy''"
proof -
  have h: "isl (airtable_firstPage airtable_down_env)"
    "\<not> isl (balance_retrieve airtable_down_env)" "\<not> isl (gmail_verify airtable_down_env)"
    by (simp_all add: airtable_down_env_def demo_env_def)
  from health_status_ignores_airtable [of airtable_down_env initial_state "''now''"] h
  show ?thesis by simp
qed

subsection \<open>C10: an invoice without a payment intent\<close>

text \<open>
  C10. For a verified \<open>invoice.payment_failed\<close> event whose invoice has no (or an empty)
  \<open>payment_intent\<close>, the handler answers 200 \<open>{received: true}\<close>, makes no request to any
  external service, and records a single entry, the \<open>info\<close> entry for the received event:
  no \<open>error\<close> entry is written.
\<close>

theorem invoice_without_payment_intent_ignored:
  "constructEvent env (req_body req) (stripe_signature req) (STRIPE_WEBHOOK_SECRET env) = Inr ev
   \<Longrightarrow> event_type ev = ''invoice.payment_failed''
   \<Longrightarrow> \<not> truthy (payment_intent (data_object ev))
   \<Longrightarrow>
   webhook env req st =
     (Some \<lparr>status = 200, body = Json_received True\<rparr>,
      addLog env ''Received webhook event: invoice.payment_failed'' ''info'' st) \<and>
   calls (snd (webhook env req st)) = calls st \<and>
   console (snd (webhook env req st)) =
     console st @ [''[INFO] Received webhook event: invoice.payment_failed''] \<and>
   logs (snd (webhook env req st)) =
     slice_last 100
       (logs st @ [\<lparr>timestamp = toISOString env (Date_now env (clock st)), level = ''info'',
                     message = ''Received webhook event: invoice.payment_failed''\<rparr>])"
  by (simp add: webhook_def dispatch_def handle_invoice_def truthy_def Let_def
      addLog_calls addLog_console addLog_logs upper_levels split: option.splits)

theorem invoice_without_payment_intent_ignored_witness:
  "constructEvent (invoice_env invoice_without_reference)
     (req_body (demo_request ''invoice.payment_failed''))
     (stripe_signature (demo_request ''invoice.payment_failed''))
     (STRIPE_WEBHOOK_SECRET (invoice_env invoice_without_reference))
     = Inr \<lparr>event_type = ''invoice.payment_failed'', data_object = invoice_without_reference\<rparr> \<and>
   event_type \<lparr>event_type = ''invoice.payment_failed'', data_object = invoice_without_reference\<rparr>
     = ''invoice.payment_failed'' \<and>
   \<not> truthy (payment_intent (data_object
        \<lparr>event_type = ''invoice.payment_failed'', data_object = invoice_without_reference\<rparr>)) \<and>
   fst (webhook (invoice_env invoice_without_reference) (demo_request ''invoice.payment_failed'')
          initial_state) = Some \<lparr>status = 200, body = Json_received True\<rparr> \<and>
   calls (snd (webhook (invoice_env invoice_without_reference)
                 (demo_request ''invoice.payment_failed'') initial_state)) = [] \<and>
   console (snd (webhook (invoice_env invoice_without_reference)
                   (demo_request ''invoice.payment_failed'') initial_state)) =
     [''[INFO] Received webhook event: invoice.payment_failed'']"
proof -
  let ?env = "invoice_env invoice_without_reference"
  let ?req = "demo_request ''invoice.payment_failed''"
  let ?ev = "\<lparr>event_type = ''invoice.payment_failed'', data_object = invoice_without_reference\<rparr>"
  have h1: "constructEvent ?env (req_body ?req) (stripe_signature ?req)
              (STRIPE_WEBHOOK_SECRET ?env) = Inr ?ev"
    by (simp add: invoice_env_def demo_request_def)
  have h2: "event_type ?ev = ''invoice.payment_failed''" by simp
  have h3: "\<not> truthy (payment_intent (data_object ?ev))"
    by (simp add: invoice_without_reference_def truthy_def)
  from invoice_without_payment_intent_ignored [OF h1 h2 h3, of initial_state] h1 h2 h3
  show ?thesis by (auto simp: initial_state_fields interpolate_def)
qed

end
